theory Spec2Isabelle
  imports Complex_Main
begin

section \<open>JavaScript values\<close>

text \<open>
  The services work on values produced by \<^verbatim>\<open>JSON.parse\<close> and on the object literals they
  build from them.  A number is kept as the decimal it was written as: \<open>JNum m e\<close> is
  \<open>m * 10 ^ e\<close>, with \<open>m\<close> not divisible by ten unless it is zero; the code holds IEEE-754
  doubles, and the rounding of long literals, of quotients and of very large values is
  not part of the model.  An object is the list of its own enumerable properties in the
  order JavaScript enumerates them, keys distinct; a key bound to \<open>JUndefined\<close> is a
  property that exists and holds \<^verbatim>\<open>undefined\<close>.  \<open>JFun name\<close> is a built-in function, which
  a property read can find on \<^verbatim>\<open>Object.prototype\<close>.  Strings are sequences of ASCII
  characters: JavaScript strings are UTF-16, and a character with a code above 127 is
  outside the model, as are white space and letter case above that code.
\<close>

datatype jsval =
    JUndefined
  | JNull
  | JBool bool
  | JNum int int
  | JStr string
  | JArr "jsval list"
  | JObj "(string \<times> jsval) list"
  | JFun string

type_synonym jsobject = "(string \<times> jsval) list"

datatype js_error = SyntaxError | TypeError | ExpectedJsonArray

text \<open>Truthiness (\<^verbatim>\<open>ToBoolean\<close>) and the \<^verbatim>\<open>typeof\<close> tests the code makes.\<close>

fun truthy :: "jsval \<Rightarrow> bool" where
  "truthy JUndefined = False"
| "truthy JNull = False"
| "truthy (JBool b) = b"
| "truthy (JNum m e) = (m \<noteq> 0)"
| "truthy (JStr s) = (s \<noteq> [])"
| "truthy (JArr xs) = True"
| "truthy (JObj kvs) = True"
| "truthy (JFun name) = True"

fun is_string :: "jsval \<Rightarrow> bool" where
  "is_string (JStr s) = True"
| "is_string v = False"

fun is_number :: "jsval \<Rightarrow> bool" where
  "is_number (JNum m e) = True"
| "is_number v = False"

text \<open>\<^verbatim>\<open>typeof v === 'object'\<close>: true of \<^verbatim>\<open>null\<close>, arrays and objects, not of
  functions.\<close>

fun typeof_object :: "jsval \<Rightarrow> bool" where
  "typeof_object JNull = True"
| "typeof_object (JArr xs) = True"
| "typeof_object (JObj kvs) = True"
| "typeof_object v = False"

fun is_array :: "jsval \<Rightarrow> bool" where
  "is_array (JArr xs) = True"
| "is_array v = False"

section \<open>Strings\<close>

definition bsl :: char where "bsl = CHR 0x5C"
definition dquote :: char where "dquote = CHR 0x22"
definition newline :: char where "newline = CHR 0x0A"

definition digit_char :: "nat \<Rightarrow> char" where
  "digit_char d = char_of (48 + d)"

text \<open>Decimal digits of a natural number, most significant first, by repeated division.\<close>

function dec_digits :: "nat \<Rightarrow> string \<Rightarrow> string" where
  "dec_digits n acc =
     (if n < 10 then digit_char n # acc
      else dec_digits (n div 10) (digit_char (n mod 10) # acc))"
  by pat_completeness auto
termination
  by (relation "measure (\<lambda>(n, acc). n)") auto

definition nat_to_dec :: "nat \<Rightarrow> string" where
  "nat_to_dec n = dec_digits n []"

definition code_of :: "char \<Rightarrow> nat" where
  "code_of c = of_char c"

definition is_upper :: "char \<Rightarrow> bool" where
  "is_upper c = (65 \<le> code_of c \<and> code_of c \<le> 90)"

definition is_lower :: "char \<Rightarrow> bool" where
  "is_lower c = (97 \<le> code_of c \<and> code_of c \<le> 122)"

definition is_digit :: "char \<Rightarrow> bool" where
  "is_digit c = (48 \<le> code_of c \<and> code_of c \<le> 57)"

definition upper_char :: "char \<Rightarrow> char" where
  "upper_char c = (if is_lower c then char_of (code_of c - 32) else c)"

definition lower_char :: "char \<Rightarrow> char" where
  "lower_char c = (if is_upper c then char_of (code_of c + 32) else c)"

text \<open>\<^verbatim>\<open>toUpperCase\<close> and \<^verbatim>\<open>toLowerCase\<close> on the ASCII letters.\<close>

definition toUpperCase :: "string \<Rightarrow> string" where
  "toUpperCase s = map upper_char s"

definition toLowerCase :: "string \<Rightarrow> string" where
  "toLowerCase s = map lower_char s"

text \<open>\<^verbatim>\<open>trim\<close> strips JavaScript white space and line terminators: tab, line feed,
  vertical tab, form feed, carriage return and space.\<close>

definition is_js_space :: "char \<Rightarrow> bool" where
  "is_js_space c = (code_of c \<in> {9, 10, 11, 12, 13, 32})"

definition trim :: "string \<Rightarrow> string" where
  "trim s = rev (dropWhile is_js_space (rev (dropWhile is_js_space s)))"

definition startsWith :: "string \<Rightarrow> string \<Rightarrow> bool" where
  "startsWith s p = (take (length p) s = p)"

definition endsWith :: "string \<Rightarrow> string \<Rightarrow> bool" where
  "endsWith s p = (length p \<le> length s \<and> drop (length s - length p) s = p)"

fun str_includes :: "string \<Rightarrow> string \<Rightarrow> bool" where
  "str_includes [] p = (p = [])"
| "str_includes (c # cs) p = (startsWith (c # cs) p \<or> str_includes cs p)"

text \<open>\<^verbatim>\<open>s.split(sep)\<close> for a one-character separator: the segments between separators,
  a single empty segment for the empty string.\<close>

fun split_acc :: "char \<Rightarrow> string \<Rightarrow> string \<Rightarrow> string list" where
  "split_acc sep [] cur = [rev cur]"
| "split_acc sep (c # cs) cur =
     (if c = sep then rev cur # split_acc sep cs [] else split_acc sep cs (c # cur))"

definition split :: "string \<Rightarrow> char \<Rightarrow> string list" where
  "split s sep = split_acc sep s []"

text \<open>\<^verbatim>\<open>s.replace(/pq/g, r)\<close> for a pattern of two literal characters: leftmost
  occurrences, not overlapping.\<close>

fun replace2 :: "char \<Rightarrow> char \<Rightarrow> string \<Rightarrow> string \<Rightarrow> string" where
  "replace2 p q r (a # b # cs) =
     (if a = p \<and> b = q then r @ replace2 p q r cs else a # replace2 p q r (b # cs))"
| "replace2 p q r cs = cs"

fun join :: "string \<Rightarrow> string list \<Rightarrow> string" where
  "join sep [] = []"
| "join sep [s] = s"
| "join sep (s # t # ss) = s @ sep @ join sep (t # ss)"

section \<open>Objects\<close>

text \<open>
  The integer a string of decimal digits stands for, and the keys that are array
  indices: the decimal numerals, without leading zeros, of the integers from 0 to
  \<open>2^32 - 2\<close>.  An object enumerates its array-index keys first, in ascending order, and
  its other keys after them in the order of their creation.
\<close>

definition index_value :: "string \<Rightarrow> int" where
  "index_value ds = foldl (\<lambda>a c. 10 * a + int (code_of c - 48)) 0 ds"

definition is_array_index :: "string \<Rightarrow> bool" where
  "is_array_index k =
     (k \<noteq> [] \<and> list_all is_digit k \<and> (if startsWith k ''0'' then k = ''0'' else True)
      \<and> index_value k \<le> 4294967294)"

text \<open>Where a new key goes: before the first key that is enumerated after it.\<close>

definition key_before :: "string \<Rightarrow> string \<Rightarrow> bool" where
  "key_before k k' =
     (is_array_index k \<and> (if is_array_index k' then index_value k < index_value k' else True))"

fun obj_replace :: "string \<Rightarrow> jsval \<Rightarrow> jsobject \<Rightarrow> jsobject" where
  "obj_replace k v [] = []"
| "obj_replace k v ((k', v') # rest) =
     (if k' = k then (k, v) # rest else (k', v') # obj_replace k v rest)"

fun obj_insert :: "string \<Rightarrow> jsval \<Rightarrow> jsobject \<Rightarrow> jsobject" where
  "obj_insert k v [] = [(k, v)]"
| "obj_insert k v ((k', v') # rest) =
     (if key_before k k' then (k, v) # (k', v') # rest else (k', v') # obj_insert k v rest)"

text \<open>Defining an own property (\<^verbatim>\<open>CreateDataProperty\<close>), as \<^verbatim>\<open>JSON.parse\<close>, an object
  literal and a spread \<^verbatim>\<open>{...src}\<close> do: an existing key keeps its place and takes the
  new value, a new key is added.\<close>

definition obj_set :: "string \<Rightarrow> jsval \<Rightarrow> jsobject \<Rightarrow> jsobject" where
  "obj_set k v obj =
     (if map_of obj k = None then obj_insert k v obj else obj_replace k v obj)"

fun obj_spread :: "jsobject \<Rightarrow> jsobject \<Rightarrow> jsobject" where
  "obj_spread target [] = target"
| "obj_spread target ((k, v) # src) = obj_spread (obj_set k v target) src"

text \<open>
  The members of \<^verbatim>\<open>Object.prototype\<close>, which every object literal and every parsed
  object inherits.  \<^verbatim>\<open>constructor\<close> is the function \<^verbatim>\<open>Object\<close>, \<^verbatim>\<open>__proto__\<close> reads as
  \<^verbatim>\<open>Object.prototype\<close> itself, an object without enumerable properties, and the others
  are functions of their own name.
\<close>

definition prototype_names :: "string list" where
  "prototype_names =
     [''constructor'', ''__defineGetter__'', ''__defineSetter__'', ''hasOwnProperty'',
      ''__lookupGetter__'', ''__lookupSetter__'', ''isPrototypeOf'', ''propertyIsEnumerable'',
      ''toString'', ''valueOf'', ''__proto__'', ''toLocaleString'']"

definition prototype_get :: "string \<Rightarrow> jsval" where
  "prototype_get k =
     (if k = ''constructor'' then JFun ''Object''
      else if k = ''__proto__'' then JObj []
      else if k \<in> set prototype_names then JFun k
      else JUndefined)"

text \<open>The property read \<^verbatim>\<open>o[k]\<close>: the object's own property, or else the inherited
  one.\<close>

definition obj_get :: "jsobject \<Rightarrow> string \<Rightarrow> jsval" where
  "obj_get obj k = (case map_of obj k of Some v \<Rightarrow> v | None \<Rightarrow> prototype_get k)"

text \<open>
  The assignment \<^verbatim>\<open>o[k] = v\<close>, and \<^verbatim>\<open>Object.assign(o, src)\<close>, which assigns each property
  of \<^verbatim>\<open>src\<close>.  An assignment to \<^verbatim>\<open>__proto__\<close> runs the setter inherited from
  \<^verbatim>\<open>Object.prototype\<close> and makes no property; the objects the code assigns to are
  created empty and receive at most one such assignment, so none of them ever owns that
  key, and the prototype the setter may install (\<^verbatim>\<open>null\<close> or an array) holds none of the
  field names the code reads from them afterwards.  Every other assignment defines the
  property.
\<close>

definition assign_prop :: "string \<Rightarrow> jsval \<Rightarrow> jsobject \<Rightarrow> jsobject" where
  "assign_prop k v obj = (if k = ''__proto__'' then obj else obj_set k v obj)"

fun obj_assign :: "jsobject \<Rightarrow> jsobject \<Rightarrow> jsobject" where
  "obj_assign target [] = target"
| "obj_assign target ((k, v) # src) = obj_assign (assign_prop k v target) src"

section \<open>Number and value conversion to strings\<close>

text \<open>\<^verbatim>\<open>Number.prototype.toString\<close> in radix ten.  With \<open>k\<close> significant digits \<open>ds\<close>
  and the decimal point after the \<open>n\<close>-th digit: plain digits padded with zeros when
  \<open>k \<le> n \<le> 21\<close>, a decimal point inside when \<open>0 < n \<le> 21\<close>, leading \<^verbatim>\<open>0.\<close> and zeros
  when \<open>-6 < n \<le> 0\<close>, exponent notation otherwise.\<close>

definition Number_toString :: "int \<Rightarrow> int \<Rightarrow> string" where
  "Number_toString m e =
     (if m = 0 then ''0''
      else
        let ds = nat_to_dec (nat \<bar>m\<bar>);
            k = int (length ds);
            n = e + k;
            sign = (if m < 0 then ''-'' else '''');
            ex = (if 0 \<le> n - 1 then ''+'' else ''-'') @ nat_to_dec (nat \<bar>n - 1\<bar>)
        in sign @
          (if k \<le> n \<and> n \<le> 21 then ds @ replicate (nat (n - k)) (CHR ''0'')
           else if 0 < n \<and> n \<le> 21 then take (nat n) ds @ ''.'' @ drop (nat n) ds
           else if -6 < n \<and> n \<le> 0 then ''0.'' @ replicate (nat (- n)) (CHR ''0'') @ ds
           else if k = 1 then ds @ ''e'' @ ex
           else take 1 ds @ ''.'' @ drop 1 ds @ ''e'' @ ex))"

text \<open>\<^verbatim>\<open>String(v)\<close>.  An array prints its elements separated by commas, \<^verbatim>\<open>null\<close> and
  \<^verbatim>\<open>undefined\<close> elements as nothing; an object prints as \<^verbatim>\<open>[object Object]\<close>; a
  built-in function prints as V8 prints it (every engine prints a text that starts with
  \<^verbatim>\<open>function\<close>).\<close>

fun js_String :: "jsval \<Rightarrow> string" where
  "js_String JUndefined = ''undefined''"
| "js_String JNull = ''null''"
| "js_String (JBool b) = (if b then ''true'' else ''false'')"
| "js_String (JNum m e) = Number_toString m e"
| "js_String (JStr s) = s"
| "js_String (JArr xs) =
     join '','' (map (\<lambda>x. if x = JNull \<or> x = JUndefined then [] else js_String x) xs)"
| "js_String (JObj kvs) = ''[object Object]''"
| "js_String (JFun name) = ''function '' @ name @ ''() { [native code] }''"

definition hex_digit :: "nat \<Rightarrow> char" where
  "hex_digit d = (if d < 10 then char_of (48 + d) else char_of (87 + d))"

text \<open>\<^verbatim>\<open>JSON.stringify\<close> of a string: quotes and backslashes are escaped, control
  characters become their short escape or \<^verbatim>\<open>\u00xx\<close>.\<close>

definition quote_char :: "char \<Rightarrow> string" where
  "quote_char c =
     (if c = dquote then [bsl, dquote]
      else if c = bsl then [bsl, bsl]
      else if c = CHR 0x08 then [bsl, CHR ''b'']
      else if c = CHR 0x0C then [bsl, CHR ''f'']
      else if c = CHR 0x0A then [bsl, CHR ''n'']
      else if c = CHR 0x0D then [bsl, CHR ''r'']
      else if c = CHR 0x09 then [bsl, CHR ''t'']
      else if code_of c < 32
        then [bsl, CHR ''u'', CHR ''0'', CHR ''0'',
              hex_digit (code_of c div 16), hex_digit (code_of c mod 16)]
      else [c])"

definition quote_string :: "string \<Rightarrow> string" where
  "quote_string s = [dquote] @ concat (map quote_char s) @ [dquote]"

text \<open>\<^verbatim>\<open>JSON.stringify(v)\<close> without indentation.  \<^verbatim>\<open>undefined\<close> and a function have
  no JSON text (\<open>None\<close>): inside an array they are written \<^verbatim>\<open>null\<close>, inside an object
  their property is left out.\<close>

fun JSON_stringify :: "jsval \<Rightarrow> string option" where
  "JSON_stringify JUndefined = None"
| "JSON_stringify (JFun name) = None"
| "JSON_stringify JNull = Some ''null''"
| "JSON_stringify (JBool b) = Some (if b then ''true'' else ''false'')"
| "JSON_stringify (JNum m e) = Some (Number_toString m e)"
| "JSON_stringify (JStr s) = Some (quote_string s)"
| "JSON_stringify (JArr xs) =
     Some (''['' @ join '',''
       (map (\<lambda>x. case JSON_stringify x of None \<Rightarrow> ''null'' | Some t \<Rightarrow> t) xs) @ '']'')"
| "JSON_stringify (JObj kvs) =
     Some (''{'' @ join '',''
       (concat (map (\<lambda>kv. case JSON_stringify (snd kv) of
                             None \<Rightarrow> []
                           | Some t \<Rightarrow> [quote_string (fst kv) @ '':'' @ t]) kvs)) @ ''}'')"

section \<open>\<^verbatim>\<open>JSON.parse\<close>\<close>

text \<open>
  The functions of the parser service take the host's \<^verbatim>\<open>JSON.parse\<close> as a parameter
  \<open>parse\<close> (\<open>None\<close> when it throws \<^verbatim>\<open>SyntaxError\<close>), so what is proved of them holds of
  every parser.  \<open>JSON_parse\<close> below is a recursive-descent parser of the JSON grammar,
  used wherever a concrete text is parsed.  An escape \<^verbatim>\<open>\uXXXX\<close> above \<^verbatim>\<open>\u007F\<close> is
  not an ASCII character and is rejected.
\<close>

definition is_json_ws :: "char \<Rightarrow> bool" where
  "is_json_ws c = (code_of c \<in> {32, 9, 10, 13})"

definition skip_ws :: "string \<Rightarrow> string" where
  "skip_ws s = dropWhile is_json_ws s"

definition hex_value :: "char \<Rightarrow> nat option" where
  "hex_value c =
     (if is_digit c then Some (code_of c - 48)
      else if 97 \<le> code_of c \<and> code_of c \<le> 102 then Some (code_of c - 87)
      else if 65 \<le> code_of c \<and> code_of c \<le> 70 then Some (code_of c - 55)
      else None)"

definition unicode_escape :: "string \<Rightarrow> char option" where
  "unicode_escape s =
     (case map hex_value (take 4 s) of
        [Some a, Some b, Some c, Some d] \<Rightarrow>
          (if a = 0 \<and> b = 0 \<and> c < 8 then Some (char_of (16 * c + d)) else None)
      | _ \<Rightarrow> None)"

definition simple_escape :: "char \<Rightarrow> char option" where
  "simple_escape e =
     (if e = dquote then Some dquote
      else if e = bsl then Some bsl
      else if e = CHR ''/'' then Some (CHR ''/'')
      else if e = CHR ''b'' then Some (CHR 0x08)
      else if e = CHR ''f'' then Some (CHR 0x0C)
      else if e = CHR ''n'' then Some (CHR 0x0A)
      else if e = CHR ''r'' then Some (CHR 0x0D)
      else if e = CHR ''t'' then Some (CHR 0x09)
      else None)"

definition prepend :: "char \<Rightarrow> (string \<times> string) option \<Rightarrow> (string \<times> string) option" where
  "prepend c r = (case r of None \<Rightarrow> None | Some (s, rest) \<Rightarrow> Some (c # s, rest))"

text \<open>The characters of a string literal after its opening quote: the decoded string
  and the text after the closing quote.\<close>

function parse_chars :: "string \<Rightarrow> (string \<times> string) option" where
  "parse_chars [] = None"
| "parse_chars (c # cs) =
     (if c = dquote then Some ([], cs)
      else if c = bsl then
        (case cs of
           [] \<Rightarrow> None
         | e # r \<Rightarrow>
             if e = CHR ''u'' then
               (case unicode_escape r of
                  None \<Rightarrow> None
                | Some ch \<Rightarrow> prepend ch (parse_chars (drop 4 r)))
             else
               (case simple_escape e of
                  None \<Rightarrow> None
                | Some ch \<Rightarrow> prepend ch (parse_chars r)))
      else if code_of c < 32 then None
      else prepend c (parse_chars cs))"
  by pat_completeness auto
termination
  by (relation "measure length") auto

definition dec_value :: "string \<Rightarrow> nat" where
  "dec_value ds = foldl (\<lambda>a c. 10 * a + (code_of c - 48)) 0 ds"

text \<open>A number literal \<^verbatim>\<open>-?(0|[1-9][0-9]*)(\.[0-9]+)?([eE][+-]?[0-9]+)?\<close>, read as an
  exact decimal with the trailing zeros of its digits moved into the exponent.\<close>

definition parse_number :: "string \<Rightarrow> (jsval \<times> string) option" where
  "parse_number s =
     (let neg = startsWith s ''-'';
          s1 = (if neg then drop 1 s else s);
          ip = takeWhile is_digit s1;
          s2 = dropWhile is_digit s1;
          has_frac = startsWith s2 ''.'';
          fp = (if has_frac then takeWhile is_digit (drop 1 s2) else []);
          s3 = (if has_frac then dropWhile is_digit (drop 1 s2) else s2);
          has_exp = (startsWith s3 ''e'' \<or> startsWith s3 ''E'');
          s4 = (if has_exp then drop 1 s3 else s3);
          eneg = (has_exp \<and> startsWith s4 ''-'');
          s5 = (if has_exp \<and> (startsWith s4 ''-'' \<or> startsWith s4 ''+'') then drop 1 s4 else s4);
          ep = (if has_exp then takeWhile is_digit s5 else []);
          s6 = (if has_exp then dropWhile is_digit s5 else s3);
          ds = ip @ fp;
          z = length (takeWhile (\<lambda>c. c = CHR ''0'') (rev ds));
          m = int (dec_value (take (length ds - z) ds));
          ex = (if eneg then - int (dec_value ep) else int (dec_value ep))
      in if ip = [] \<or> (1 < length ip \<and> startsWith ip ''0'') then None
         else if has_frac \<and> fp = [] then None
         else if has_exp \<and> ep = [] then None
         else if m = 0 then Some (JNum 0 0, s6)
         else Some (JNum (if neg then - m else m) (ex - int (length fp) + int z), s6))"

text \<open>The recursive descent, with a bound on the number of nested calls; an element or
  a member costs two calls and at least one character, so \<open>JSON_parse\<close> starts it with
  two calls for each character of the text.\<close>

fun parse_value :: "nat \<Rightarrow> string \<Rightarrow> (jsval \<times> string) option"
  and parse_elements :: "nat \<Rightarrow> string \<Rightarrow> jsval list \<Rightarrow> (jsval list \<times> string) option"
  and parse_members :: "nat \<Rightarrow> string \<Rightarrow> jsobject \<Rightarrow> (jsobject \<times> string) option"
where
  "parse_value 0 s = None"
| "parse_value (Suc n) s =
     (case skip_ws s of
        [] \<Rightarrow> None
      | c # cs \<Rightarrow>
          if c = CHR ''{'' then
            (if startsWith (skip_ws cs) ''}'' then Some (JObj [], drop 1 (skip_ws cs))
             else (case parse_members n cs [] of
                     None \<Rightarrow> None
                   | Some (kvs, r) \<Rightarrow> Some (JObj kvs, r)))
          else if c = CHR ''['' then
            (if startsWith (skip_ws cs) '']'' then Some (JArr [], drop 1 (skip_ws cs))
             else (case parse_elements n cs [] of
                     None \<Rightarrow> None
                   | Some (vs, r) \<Rightarrow> Some (JArr vs, r)))
          else if c = dquote then
            (case parse_chars cs of
               None \<Rightarrow> None
             | Some (str, r) \<Rightarrow> Some (JStr str, r))
          else if startsWith (c # cs) ''true'' then Some (JBool True, drop 4 (c # cs))
          else if startsWith (c # cs) ''false'' then Some (JBool False, drop 5 (c # cs))
          else if startsWith (c # cs) ''null'' then Some (JNull, drop 4 (c # cs))
          else parse_number (c # cs))"
| "parse_elements 0 s acc = None"
| "parse_elements (Suc n) s acc =
     (case parse_value n s of
        None \<Rightarrow> None
      | Some (v, r) \<Rightarrow>
          (case skip_ws r of
             [] \<Rightarrow> None
           | c # cs \<Rightarrow>
               if c = CHR '','' then parse_elements n cs (acc @ [v])
               else if c = CHR '']'' then Some (acc @ [v], cs)
               else None))"
| "parse_members 0 s acc = None"
| "parse_members (Suc n) s acc =
     (case skip_ws s of
        [] \<Rightarrow> None
      | q # cs \<Rightarrow>
          if q \<noteq> dquote then None
          else
            (case parse_chars cs of
               None \<Rightarrow> None
             | Some (k, r) \<Rightarrow>
                 (case skip_ws r of
                    [] \<Rightarrow> None
                  | colon # r2 \<Rightarrow>
                      if colon \<noteq> CHR '':'' then None
                      else
                        (case parse_value n r2 of
                           None \<Rightarrow> None
                         | Some (v, r3) \<Rightarrow>
                             (case skip_ws r3 of
                                [] \<Rightarrow> None
                              | c # r4 \<Rightarrow>
                                  if c = CHR '','' then parse_members n r4 (obj_set k v acc)
                                  else if c = CHR ''}'' then Some (obj_set k v acc, r4)
                                  else None)))))"

definition JSON_parse :: "string \<Rightarrow> jsval option" where
  "JSON_parse s =
     (case parse_value (2 * length s + 2) s of
        None \<Rightarrow> None
      | Some (v, r) \<Rightarrow> if skip_ws r = [] then Some v else None)"

section \<open>The patterns of the parser service\<close>

text \<open>
  The three regular expressions of \<^verbatim>\<open>extractTimestampFromLine\<close> and
  \<^verbatim>\<open>extractLevelFromLine\<close> are written in a small pattern language and run by a
  backtracking matcher that lists the matches at a position in the order JavaScript
  tries them: alternatives left to right, an optional part first taken, a repetition
  longest first.  A matcher state is the character before the position, the matched text
  reversed, and the text still to read.
\<close>

datatype rx =
    Cls "char \<Rightarrow> bool"
  | Seq rx rx
  | Alt rx rx
  | Opt rx
  | Plus "char \<Rightarrow> bool"
  | WordB
  | Eps

type_synonym rx_state = "char option \<times> string \<times> string"

definition is_word_char :: "char \<Rightarrow> bool" where
  "is_word_char c = (is_upper c \<or> is_lower c \<or> is_digit c \<or> c = CHR ''_'')"

definition is_word_opt :: "char option \<Rightarrow> bool" where
  "is_word_opt x = (case x of None \<Rightarrow> False | Some c \<Rightarrow> is_word_char c)"

fun plus_run :: "(char \<Rightarrow> bool) \<Rightarrow> char option \<Rightarrow> string \<Rightarrow> string \<Rightarrow> rx_state list" where
  "plus_run p pv m [] = []"
| "plus_run p pv m (c # cs) =
     (if p c then plus_run p (Some c) (c # m) cs @ [(Some c, c # m, cs)] else [])"

fun rx_run :: "rx \<Rightarrow> rx_state \<Rightarrow> rx_state list" where
  "rx_run (Cls p) (pv, m, s) =
     (case s of [] \<Rightarrow> [] | c # cs \<Rightarrow> if p c then [(Some c, c # m, cs)] else [])"
| "rx_run (Seq a b) st = concat (map (rx_run b) (rx_run a st))"
| "rx_run (Alt a b) st = rx_run a st @ rx_run b st"
| "rx_run (Opt a) st = rx_run a st @ [st]"
| "rx_run (Plus p) (pv, m, s) = plus_run p pv m s"
| "rx_run WordB (pv, m, s) =
     (if is_word_opt pv \<noteq> is_word_opt (case s of [] \<Rightarrow> None | c # cs \<Rightarrow> Some c)
      then [(pv, m, s)] else [])"
| "rx_run Eps st = [st]"

text \<open>\<^verbatim>\<open>line.match(re)\<close> without the global flag: the first match at the leftmost
  position that has one, \<open>None\<close> for \<^verbatim>\<open>null\<close>.\<close>

fun rx_search :: "rx \<Rightarrow> char option \<Rightarrow> string \<Rightarrow> string option" where
  "rx_search r pv [] =
     (case rx_run r (pv, [], []) of [] \<Rightarrow> None | (pv', m, rest) # more \<Rightarrow> Some (rev m))"
| "rx_search r pv (c # cs) =
     (case rx_run r (pv, [], c # cs) of
        [] \<Rightarrow> rx_search r (Some c) cs
      | (pv', m, rest) # more \<Rightarrow> Some (rev m))"

definition str_match :: "string \<Rightarrow> rx \<Rightarrow> string option" where
  "str_match line r = rx_search r None line"

definition ch :: "char \<Rightarrow> rx" where
  "ch c = Cls (\<lambda>x. x = c)"

definition digit :: rx where
  "digit = Cls is_digit"

fun seqs :: "rx list \<Rightarrow> rx" where
  "seqs [] = Eps"
| "seqs (r # rs) = Seq r (seqs rs)"

fun alts :: "rx list \<Rightarrow> rx" where
  "alts [] = Eps"
| "alts [r] = r"
| "alts (r # rs) = Alt r (alts rs)"

fun rep :: "nat \<Rightarrow> rx \<Rightarrow> rx" where
  "rep 0 r = Eps"
| "rep (Suc n) r = Seq r (rep n r)"

text \<open>A literal word under the \<^verbatim>\<open>i\<close> flag: each character matches in either case.\<close>

definition lit_ci :: "string \<Rightarrow> rx" where
  "lit_ci w = seqs (map (\<lambda>c. Cls (\<lambda>x. upper_char x = upper_char c)) w)"

text \<open>\<^verbatim>\<open>/\d{4}-\d{2}-\d{2}T\d{2}:\d{2}:\d{2}(?:\.\d{3})?(?:Z|[+-]\d{2}:?\d{2})?/\<close>\<close>

definition iso_rx :: rx where
  "iso_rx = seqs
     [rep 4 digit, ch (CHR ''-''), rep 2 digit, ch (CHR ''-''), rep 2 digit, ch (CHR ''T''),
      rep 2 digit, ch (CHR '':''), rep 2 digit, ch (CHR '':''), rep 2 digit,
      Opt (seqs [ch (CHR ''.''), rep 3 digit]),
      Opt (Alt (ch (CHR ''Z''))
               (seqs [Cls (\<lambda>x. x = CHR ''+'' \<or> x = CHR ''-''), rep 2 digit,
                      Opt (ch (CHR '':'')), rep 2 digit]))]"

text \<open>\<^verbatim>\<open>/\d{4}-\d{2}-\d{2}\s+\d{2}:\d{2}:\d{2}/\<close>\<close>

definition common_rx :: rx where
  "common_rx = seqs
     [rep 4 digit, ch (CHR ''-''), rep 2 digit, ch (CHR ''-''), rep 2 digit, Plus is_js_space,
      rep 2 digit, ch (CHR '':''), rep 2 digit, ch (CHR '':''), rep 2 digit]"

text \<open>\<^verbatim>\<open>/\b(DEBUG|INFO|WARN|WARNING|ERROR|FATAL|TRACE|CRITICAL)\b/i\<close>; its one group is the
  whole match.\<close>

definition level_rx :: rx where
  "level_rx = seqs
     [WordB,
      alts (map lit_ci [''DEBUG'', ''INFO'', ''WARN'', ''WARNING'', ''ERROR'', ''FATAL'',
                        ''TRACE'', ''CRITICAL'']),
      WordB]"

section \<open>The log parser service\<close>

text \<open>\<^verbatim>\<open>extractTimestampFromLine\<close>: the ISO 8601 pattern first, then the common log
  format; \<open>None\<close> is \<^verbatim>\<open>null\<close>.\<close>

definition extractTimestampFromLine :: "string \<Rightarrow> string option" where
  "extractTimestampFromLine line =
     (case str_match line iso_rx of
        Some isoMatch \<Rightarrow> Some isoMatch
      | None \<Rightarrow>
          (case str_match line common_rx of
             Some commonMatch \<Rightarrow> Some commonMatch
           | None \<Rightarrow> None))"

definition extractLevelFromLine :: "string \<Rightarrow> jsval" where
  "extractLevelFromLine line =
     (case str_match line level_rx of
        Some levelMatch \<Rightarrow> JStr (toUpperCase levelMatch)
      | None \<Rightarrow> JUndefined)"

text \<open>\<^verbatim>\<open>Object.entries(v)\<close>: the properties of an object, the indexed elements of an
  array, the indexed characters of a string, nothing for a number, a boolean or a
  built-in function, and a
  \<^verbatim>\<open>TypeError\<close> for \<^verbatim>\<open>null\<close> and \<^verbatim>\<open>undefined\<close>.\<close>

definition indexed :: "jsval list \<Rightarrow> jsobject" where
  "indexed xs = zip (map nat_to_dec [0..<length xs]) xs"

fun object_entries :: "jsval \<Rightarrow> js_error + jsobject" where
  "object_entries JUndefined = Inl TypeError"
| "object_entries JNull = Inl TypeError"
| "object_entries (JBool b) = Inr []"
| "object_entries (JNum m e) = Inr []"
| "object_entries (JStr s) = Inr (indexed (map (\<lambda>c. JStr [c]) s))"
| "object_entries (JArr xs) = Inr (indexed xs)"
| "object_entries (JObj kvs) = Inr kvs"
| "object_entries (JFun name) = Inr []"

text \<open>\<^verbatim>\<open>entry[k]\<close> on a parsed value, for the keys \<^verbatim>\<open>_id\<close> and \<^verbatim>\<open>_index\<close> that
  \<^verbatim>\<open>normalizeEntry\<close> reads: only an object can hold them.\<close>

fun js_get :: "jsval \<Rightarrow> string \<Rightarrow> jsval" where
  "js_get (JObj kvs) k = obj_get kvs k"
| "js_get v k = JUndefined"

text \<open>
  \<^verbatim>\<open>flattenObject\<close>.  \<open>flattenEntries\<close> is its loop over \<^verbatim>\<open>Object.entries(obj)\<close>, with
  \<open>result\<close> the object built so far.  The test
  \<^verbatim>\<open>value && typeof value === 'object' && !Array.isArray(value)\<close> holds of the values
  \<open>JObj sub\<close> and of no other (lemma \<open>nested_object_test\<close>), and the recursive call then
  runs on the entries \<open>sub\<close>.
\<close>

definition newKey :: "string \<Rightarrow> string \<Rightarrow> string" where
  "newKey prefix key = (if prefix \<noteq> [] then prefix @ ''.'' @ key else key)"

fun flattenEntries :: "jsobject \<Rightarrow> string \<Rightarrow> jsobject \<Rightarrow> jsobject" where
  "flattenEntries [] prefix result = result"
| "flattenEntries ((key, value) # rest) prefix result =
     flattenEntries rest prefix
       (case value of
          JObj sub \<Rightarrow> obj_assign result (flattenEntries sub (newKey prefix key) [])
        | _ \<Rightarrow> assign_prop (newKey prefix key) value result)"

definition flattenObject :: "jsval \<Rightarrow> string \<Rightarrow> js_error + jsobject" where
  "flattenObject obj prefix =
     (case object_entries obj of
        Inl e \<Rightarrow> Inl e
      | Inr entries \<Rightarrow> Inr (flattenEntries entries prefix []))"

definition timestampFields :: "string list" where
  "timestampFields = [''@timestamp'', ''timestamp'', ''time'', ''datetime'', ''date'', ''created_at'']"

definition levelFields :: "string list" where
  "levelFields = [''level'', ''log.level'', ''severity'', ''loglevel'']"

definition messageFields :: "string list" where
  "messageFields = [''message'', ''msg'', ''text'', ''log'', ''log.message'']"

text \<open>The first field of the list that holds a non-empty string; \<^verbatim>\<open>null\<close>
  (\<^verbatim>\<open>detectTimestamp\<close>) or \<^verbatim>\<open>undefined\<close> (\<^verbatim>\<open>detectMessage\<close>) when there is none.\<close>

fun first_string_field :: "jsobject \<Rightarrow> string list \<Rightarrow> jsval \<Rightarrow> jsval" where
  "first_string_field entry [] none = none"
| "first_string_field entry (field # fields) none =
     (if truthy (obj_get entry field) \<and> is_string (obj_get entry field)
      then obj_get entry field
      else first_string_field entry fields none)"

definition detectTimestamp :: "jsobject \<Rightarrow> jsval" where
  "detectTimestamp entry = first_string_field entry timestampFields JNull"

definition detectMessage :: "jsobject \<Rightarrow> jsval" where
  "detectMessage entry = first_string_field entry messageFields JUndefined"

fun first_level_field :: "jsobject \<Rightarrow> string list \<Rightarrow> jsval" where
  "first_level_field entry [] = JUndefined"
| "first_level_field entry (field # fields) =
     (if truthy (obj_get entry field)
      then JStr (toUpperCase (js_String (obj_get entry field)))
      else first_level_field entry fields)"

definition detectLevel :: "jsobject \<Rightarrow> jsval" where
  "detectLevel entry = first_level_field entry levelFields"

text \<open>
  \<^verbatim>\<open>normalizeEntry\<close>.  \<open>now index\<close> is \<^verbatim>\<open>new Date().toISOString()\<close> as read while entry
  number \<open>index\<close> is built.  The object literal lists the five detected fields and then
  spreads \<open>flattened\<close> over them, so a flattened key of the same name replaces the
  detected value.
\<close>

definition normalizeEntry :: "(nat \<Rightarrow> string) \<Rightarrow> jsval \<Rightarrow> nat \<Rightarrow> js_error + jsobject" where
  "normalizeEntry now entry index =
     (case flattenObject entry [] of
        Inl e \<Rightarrow> Inl e
      | Inr flattened \<Rightarrow>
          Inr (obj_spread
            [(''_id'', if truthy (js_get entry ''_id'') then js_get entry ''_id''
                       else JStr (''entry-'' @ nat_to_dec index)),
             (''_index'', js_get entry ''_index''),
             (''@timestamp'', if truthy (detectTimestamp flattened)
                              then detectTimestamp flattened else JStr (now index)),
             (''level'', detectLevel flattened),
             (''message'', detectMessage flattened)]
            flattened))"

definition createTextEntry :: "(nat \<Rightarrow> string) \<Rightarrow> string \<Rightarrow> nat \<Rightarrow> jsobject" where
  "createTextEntry now line index =
     (let timestamp = extractTimestampFromLine line;
          level = extractLevelFromLine line
      in [(''_id'', JStr (''line-'' @ nat_to_dec index)),
          (''@timestamp'', JStr (case timestamp of Some t \<Rightarrow> t | None \<Rightarrow> now index)),
          (''level'', level),
          (''message'', JStr line),
          (''_raw'', JStr line)])"

text \<open>\<^verbatim>\<open>xs.map((x, index) => f(x, index))\<close>, and the same when \<open>f\<close> can throw: the first
  exception ends the map.\<close>

fun map_index :: "('a \<Rightarrow> nat \<Rightarrow> 'b) \<Rightarrow> nat \<Rightarrow> 'a list \<Rightarrow> 'b list" where
  "map_index f i [] = []"
| "map_index f i (x # xs) = f x i # map_index f (Suc i) xs"

fun map_index_throw :: "('a \<Rightarrow> nat \<Rightarrow> js_error + 'b) \<Rightarrow> nat \<Rightarrow> 'a list \<Rightarrow> js_error + 'b list" where
  "map_index_throw f i [] = Inr []"
| "map_index_throw f i (x # xs) =
     (case f x i of
        Inl e \<Rightarrow> Inl e
      | Inr y \<Rightarrow> (case map_index_throw f (Suc i) xs of Inl e \<Rightarrow> Inl e | Inr ys \<Rightarrow> Inr (y # ys)))"

definition parseJsonArray ::
  "(string \<Rightarrow> jsval option) \<Rightarrow> (nat \<Rightarrow> string) \<Rightarrow> string \<Rightarrow> js_error + jsobject list" where
  "parseJsonArray parse now content =
     (case parse content of
        None \<Rightarrow> Inl SyntaxError
      | Some parsed \<Rightarrow>
          (case parsed of
             JArr elems \<Rightarrow> map_index_throw (normalizeEntry now) 0 elems
           | _ \<Rightarrow> Inl ExpectedJsonArray))"

definition parseNdjson ::
  "(string \<Rightarrow> jsval option) \<Rightarrow> (nat \<Rightarrow> string) \<Rightarrow> string \<Rightarrow> jsobject list" where
  "parseNdjson parse now content =
     (let lines = filter (\<lambda>line. trim line \<noteq> []) (split content newline)
      in map_index
           (\<lambda>line index.
              case parse line of
                None \<Rightarrow> createTextEntry now line index
              | Some parsed \<Rightarrow>
                  (case normalizeEntry now parsed index of
                     Inl e \<Rightarrow> createTextEntry now line index
                   | Inr entry \<Rightarrow> entry))
           0 lines)"

definition parsePlainText :: "(nat \<Rightarrow> string) \<Rightarrow> string \<Rightarrow> string \<Rightarrow> jsobject list" where
  "parsePlainText now content filename =
     (let lines = split content newline
      in map_index (createTextEntry now) 0 lines)"

text \<open>The signals of the service, and \<^verbatim>\<open>parseLogFile\<close>: the \<^verbatim>\<open>try\<close> block either stores
  the entries or, on an exception, stores the error; \<^verbatim>\<open>finally\<close> resets the loading
  flag.\<close>

record parser_state =
  logs :: "jsobject list"
  isLoading :: bool
  error :: "js_error option"

definition parseLogFile ::
  "(string \<Rightarrow> jsval option) \<Rightarrow> (nat \<Rightarrow> string) \<Rightarrow> string \<Rightarrow> string \<Rightarrow> parser_state \<Rightarrow> parser_state" where
  "parseLogFile parse now content filename st =
     (let st1 = st\<lparr>isLoading := True, error := None\<rparr>;
          trimmed = trim content;
          outcome =
            (if startsWith trimmed ''['' then parseJsonArray parse now trimmed
             else if startsWith trimmed ''{'' then Inr (parseNdjson parse now trimmed)
             else Inr (parsePlainText now trimmed filename));
          st2 = (case outcome of
                   Inr entries \<Rightarrow> st1\<lparr>logs := entries\<rparr>
                 | Inl e \<Rightarrow> st1\<lparr>error := Some e\<rparr>)
      in st2\<lparr>isLoading := False\<rparr>)"

definition clearLogs :: "parser_state \<Rightarrow> parser_state" where
  "clearLogs st = st\<lparr>logs := [], error := None\<rparr>"

text \<open>
  \<^verbatim>\<open>unescapeString\<close>.  \<open>unescapeLoop\<close> is the \<^verbatim>\<open>while\<close> loop; \<open>None\<close> is an exception of
  \<^verbatim>\<open>JSON.parse\<close>, which the \<^verbatim>\<open>catch\<close> turns into the original string.
\<close>

definition maxAttempts :: nat where
  "maxAttempts = 3"

definition is_quoted :: "string \<Rightarrow> bool" where
  "is_quoted result = (startsWith result [dquote] \<and> endsWith result [dquote])"

definition has_escapes :: "string \<Rightarrow> bool" where
  "has_escapes result =
     (str_includes result [bsl, dquote] \<or> str_includes result [bsl, CHR ''n'']
      \<or> str_includes result [bsl, CHR ''t''])"

definition replace_escapes :: "string \<Rightarrow> string" where
  "replace_escapes result =
     replace2 bsl bsl [bsl]
       (replace2 bsl (CHR ''r'') [CHR 0x0D]
         (replace2 bsl (CHR ''t'') [CHR 0x09]
           (replace2 bsl (CHR ''n'') [CHR 0x0A]
             (replace2 bsl dquote [dquote] result))))"

function unescapeLoop :: "(string \<Rightarrow> jsval option) \<Rightarrow> string \<Rightarrow> nat \<Rightarrow> string option" where
  "unescapeLoop parse result attempts =
     (if \<not> attempts < maxAttempts then Some result
      else if is_quoted result \<and> parse result = None then None
      else
        (case (if is_quoted result then parse result else None) of
           Some (JStr parsed) \<Rightarrow> unescapeLoop parse parsed (attempts + 1)
         | _ \<Rightarrow>
             if has_escapes result \<and> replace_escapes result \<noteq> result
             then unescapeLoop parse (replace_escapes result) (attempts + 1)
             else Some result))"
  by pat_completeness auto
termination
  by (relation "measure (\<lambda>(parse, result, attempts). maxAttempts - attempts)") auto

definition unescapeString :: "(string \<Rightarrow> jsval option) \<Rightarrow> string \<Rightarrow> string" where
  "unescapeString parse str =
     (if str = [] then str
      else (case unescapeLoop parse str 0 of None \<Rightarrow> str | Some result \<Rightarrow> result))"

section \<open>The search service\<close>

text \<open>
  A \<^verbatim>\<open>Date\<close> is its time value in milliseconds, \<open>None\<close> for an invalid date (time value
  \<^verbatim>\<open>NaN\<close>); a bound of the time range is \<open>None\<close> for \<^verbatim>\<open>null\<close>.  The host's
  \<^verbatim>\<open>new Date(v)\<close> is the parameter \<open>date_of\<close> and \<^verbatim>\<open>new RegExp(query, flags)\<close> the
  parameter \<open>regexp\<close>, which gives the pattern's \<^verbatim>\<open>test\<close> or \<open>None\<close> when the
  constructor throws.
\<close>

type_synonym date = "int option"

datatype operator = Equals | Contains | Not_equals

record SearchFilter =
  field :: string
  fvalue :: string
  operator :: operator

record TimeRange =
  range_start :: "date option"
  range_end :: "date option"

record search_state =
  searchQuery :: string
  isRegex :: bool
  quickFilters :: "SearchFilter list"
  timeRange :: TimeRange
  caseSensitive :: bool

text \<open>\<^verbatim>\<open>a < b\<close> on dates: false when either is invalid.\<close>

definition date_less :: "date \<Rightarrow> date \<Rightarrow> bool" where
  "date_less a b = (case a of None \<Rightarrow> False | Some x \<Rightarrow> (case b of None \<Rightarrow> False | Some y \<Rightarrow> x < y))"

text \<open>The callback of the time-range filter.\<close>

definition in_time_range :: "(jsval \<Rightarrow> date) \<Rightarrow> TimeRange \<Rightarrow> jsobject \<Rightarrow> bool" where
  "in_time_range date_of tr entry =
     (let timestamp = date_of (obj_get entry ''@timestamp'')
      in if (case range_start tr of None \<Rightarrow> False | Some s \<Rightarrow> date_less timestamp s) then False
         else if (case range_end tr of None \<Rightarrow> False | Some e \<Rightarrow> date_less e timestamp) then False
         else True)"

text \<open>\<^verbatim>\<open>String(entry[filter.field] ?? '')\<close> and the callback of \<^verbatim>\<open>quickFilters.every\<close>.\<close>

definition field_string :: "jsobject \<Rightarrow> string \<Rightarrow> string" where
  "field_string entry f =
     js_String (if obj_get entry f = JNull \<or> obj_get entry f = JUndefined then JStr []
                else obj_get entry f)"

definition filter_matches :: "jsobject \<Rightarrow> SearchFilter \<Rightarrow> bool" where
  "filter_matches entry flt =
     (let entryValue = field_string entry (field flt)
      in case operator flt of
           Equals \<Rightarrow> entryValue = fvalue flt
         | Contains \<Rightarrow> str_includes (toLowerCase entryValue) (toLowerCase (fvalue flt))
         | Not_equals \<Rightarrow> entryValue \<noteq> fvalue flt)"

text \<open>The string a field value is searched in: \<^verbatim>\<open>JSON.stringify\<close> for an array or an
  object, \<^verbatim>\<open>String\<close> otherwise.\<close>

definition search_string :: "jsval \<Rightarrow> string" where
  "search_string v =
     (if typeof_object v
      then (case JSON_stringify v of None \<Rightarrow> ''undefined'' | Some t \<Rightarrow> t)
      else js_String v)"

fun matchesRegex_values :: "jsval list \<Rightarrow> (string \<Rightarrow> bool) \<Rightarrow> bool" where
  "matchesRegex_values [] test = False"
| "matchesRegex_values (v # vs) test =
     (if v = JNull \<or> v = JUndefined then matchesRegex_values vs test
      else if test (search_string v) then True
      else matchesRegex_values vs test)"

definition matchesRegex :: "jsobject \<Rightarrow> (string \<Rightarrow> bool) \<Rightarrow> bool" where
  "matchesRegex entry test = matchesRegex_values (map snd entry) test"

fun matchesSearch_values :: "jsval list \<Rightarrow> string \<Rightarrow> bool \<Rightarrow> bool" where
  "matchesSearch_values [] query cs = False"
| "matchesSearch_values (v # vs) query cs =
     (if v = JNull \<or> v = JUndefined then matchesSearch_values vs query cs
      else if str_includes (if cs then search_string v else toLowerCase (search_string v)) query
        then True
      else matchesSearch_values vs query cs)"

definition matchesSearch :: "jsobject \<Rightarrow> string \<Rightarrow> bool \<Rightarrow> bool" where
  "matchesSearch entry query cs = matchesSearch_values (map snd entry) query cs"

text \<open>The three stages of \<^verbatim>\<open>filterLogs\<close>, each on the output of the one before.\<close>

definition time_range_stage :: "(jsval \<Rightarrow> date) \<Rightarrow> search_state \<Rightarrow> jsobject list \<Rightarrow> jsobject list" where
  "time_range_stage date_of st filtered =
     (if range_start (timeRange st) \<noteq> None \<or> range_end (timeRange st) \<noteq> None
      then filter (in_time_range date_of (timeRange st)) filtered
      else filtered)"

definition quick_filter_stage :: "search_state \<Rightarrow> jsobject list \<Rightarrow> jsobject list" where
  "quick_filter_stage st filtered =
     (if 0 < length (quickFilters st)
      then filter (\<lambda>entry. list_all (filter_matches entry) (quickFilters st)) filtered
      else filtered)"

definition query_stage ::
  "(string \<Rightarrow> string \<Rightarrow> (string \<Rightarrow> bool) option) \<Rightarrow> search_state \<Rightarrow> jsobject list \<Rightarrow> jsobject list" where
  "query_stage regexp st filtered =
     (let query = trim (searchQuery st)
      in if 0 < length query then
           (if isRegex st then
              (case regexp query (if caseSensitive st then [] else ''i'') of
                 None \<Rightarrow> filtered
               | Some test \<Rightarrow> filter (\<lambda>entry. matchesRegex entry test) filtered)
            else
              (let searchLower = (if caseSensitive st then query else toLowerCase query)
               in filter (\<lambda>entry. matchesSearch entry searchLower (caseSensitive st)) filtered))
         else filtered)"

definition filterLogs ::
  "(jsval \<Rightarrow> date) \<Rightarrow> (string \<Rightarrow> string \<Rightarrow> (string \<Rightarrow> bool) option) \<Rightarrow> search_state
     \<Rightarrow> jsobject list \<Rightarrow> jsobject list" where
  "filterLogs date_of regexp st records =
     query_stage regexp st (quick_filter_stage st (time_range_stage date_of st records))"

section \<open>The analytics service\<close>

text \<open>
  The statistics are computed from the filtered records, which the functions below take
  as their argument \<open>records\<close>.
  \<^verbatim>\<open>Array.prototype.sort(cmp)\<close> is stable; with a comparator that orders its arguments
  consistently the result is the stable sorted arrangement, which insertion from the
  right computes.
\<close>

fun insert_by :: "('a \<Rightarrow> 'a \<Rightarrow> 'b::linordered_idom) \<Rightarrow> 'a \<Rightarrow> 'a list \<Rightarrow> 'a list" where
  "insert_by cmp x [] = [x]"
| "insert_by cmp x (y # ys) = (if cmp x y \<le> 0 then x # y # ys else y # insert_by cmp x ys)"

definition js_sort :: "('a \<Rightarrow> 'a \<Rightarrow> 'b::linordered_idom) \<Rightarrow> 'a list \<Rightarrow> 'a list" where
  "js_sort cmp xs = foldr (insert_by cmp) xs []"

text \<open>\<^verbatim>\<open>xs.indexOf(x)\<close>: the first position of \<open>x\<close>, \<open>-1\<close> when it is absent.\<close>

fun indexOf_from :: "int \<Rightarrow> 'a list \<Rightarrow> 'a \<Rightarrow> int" where
  "indexOf_from i [] x = - 1"
| "indexOf_from i (y # ys) x = (if y = x then i else indexOf_from (i + 1) ys x)"

definition indexOf :: "'a list \<Rightarrow> 'a \<Rightarrow> int" where
  "indexOf xs x = indexOf_from 0 xs x"

text \<open>A \<^verbatim>\<open>Map\<close> keeps its keys in the order of their first insertion.\<close>

fun map_set :: "'k \<Rightarrow> 'v \<Rightarrow> ('k \<times> 'v) list \<Rightarrow> ('k \<times> 'v) list" where
  "map_set k v [] = [(k, v)]"
| "map_set k v ((k', v') # rest) =
     (if k' = k then (k, v) # rest else (k', v') # map_set k v rest)"

definition map_get :: "('k \<times> 'v) list \<Rightarrow> 'k \<Rightarrow> 'v \<Rightarrow> 'v" where
  "map_get m k dflt = (case map_of m k of None \<Rightarrow> dflt | Some v \<Rightarrow> v)"

subsection \<open>Level distribution\<close>

record LevelCount =
  level :: string
  count :: nat
  percentage :: rat
  color :: string

text \<open>\<^verbatim>\<open>(log.level || 'UNKNOWN').toUpperCase()\<close>: a truthy level that is not a string has
  no \<^verbatim>\<open>toUpperCase\<close>, and the call throws.\<close>

definition level_of :: "jsobject \<Rightarrow> js_error + string" where
  "level_of entry =
     (if truthy (obj_get entry ''level'')
      then (case obj_get entry ''level'' of
              JStr s \<Rightarrow> Inr (toUpperCase s)
            | _ \<Rightarrow> Inl TypeError)
      else Inr (toUpperCase ''UNKNOWN''))"

fun count_levels :: "jsobject list \<Rightarrow> (string \<times> nat) list \<Rightarrow> js_error + (string \<times> nat) list" where
  "count_levels [] counts = Inr counts"
| "count_levels (entry # rest) counts =
     (case level_of entry of
        Inl e \<Rightarrow> Inl e
      | Inr lv \<Rightarrow> count_levels rest (map_set lv (map_get counts lv 0 + 1) counts))"

definition levelColors :: "(string \<times> string) list" where
  "levelColors =
     [(''ERROR'', ''#C62828''), (''FATAL'', ''#AD1457''), (''CRITICAL'', ''#AD1457''),
      (''WARN'', ''#E65100''), (''WARNING'', ''#E65100''), (''INFO'', ''#1565C0''),
      (''DEBUG'', ''#2E7D32''), (''TRACE'', ''#455A64''), (''UNKNOWN'', ''#888888'')]"

definition priority :: "string list" where
  "priority = [''ERROR'', ''FATAL'', ''CRITICAL'', ''WARN'', ''WARNING'', ''INFO'', ''DEBUG'',
               ''TRACE'', ''UNKNOWN'']"

definition level_compare :: "string \<times> nat \<Rightarrow> string \<times> nat \<Rightarrow> int" where
  "level_compare a b =
     (let aPriority = indexOf priority (fst a);
          bPriority = indexOf priority (fst b)
      in if aPriority \<noteq> bPriority then aPriority - bPriority
         else int (snd b) - int (snd a))"

definition levelDistribution :: "jsobject list \<Rightarrow> js_error + LevelCount list" where
  "levelDistribution records =
     (case count_levels records [] of
        Inl e \<Rightarrow> Inl e
      | Inr counts \<Rightarrow>
          (let total = length records
           in Inr (map (\<lambda>(lv, n).
                     \<lparr>level = lv, count = n,
                      percentage = (if 0 < total then of_nat n / of_nat total * 100 else 0),
                      color = map_get levelColors lv ''#888888''\<rparr>)
                   (js_sort level_compare counts))))"

subsection \<open>Timeline histogram\<close>

text \<open>
  Times are integer milliseconds, so \<^verbatim>\<open>Math.floor(t / bucketMs) * bucketMs\<close> is
  \<open>t div bucketMs * bucketMs\<close> and \<^verbatim>\<open>Math.ceil(n / 30)\<close> is \<open>(n + 29) div 30\<close>.  The
  locale-dependent label of a bucket is the host's formatting \<open>fmt\<close> in one of three
  styles.  The limits of the engine (the number of arguments \<^verbatim>\<open>Math.max(...)\<close> accepts,
  the length of an array) are not part of the model.
\<close>

datatype label_style = HourMinute | WeekdayHour | MonthDay

record TimelineBucket =
  time :: int
  label :: string
  bucket_count :: nat
  maxCount :: nat

definition valid_times :: "(jsval \<Rightarrow> date) \<Rightarrow> jsobject list \<Rightarrow> int list" where
  "valid_times date_of records =
     List.map_filter (\<lambda>entry. date_of (obj_get entry ''@timestamp'')) records"

definition bucket_size :: "int \<Rightarrow> int \<times> label_style" where
  "bucket_size time_span =
     (if time_span < 60 * 60 * 1000 then (60 * 1000, HourMinute)
      else if time_span < 24 * 60 * 60 * 1000 then (15 * 60 * 1000, HourMinute)
      else if time_span < 7 * 24 * 60 * 60 * 1000 then (60 * 60 * 1000, WeekdayHour)
      else (24 * 60 * 60 * 1000, MonthDay))"

fun count_buckets :: "int \<Rightarrow> int list \<Rightarrow> (int \<times> nat) list \<Rightarrow> (int \<times> nat) list" where
  "count_buckets bucketMs [] buckets = buckets"
| "count_buckets bucketMs (ts # rest) buckets =
     (let bucketKey = ts div bucketMs * bucketMs
      in count_buckets bucketMs rest (map_set bucketKey (map_get buckets bucketKey 0 + 1) buckets))"

text \<open>The gap-filling loop \<^verbatim>\<open>for (bucket = startBucket; bucket <= endBucket; bucket += bucketMs)\<close>;
  the widths it is run with are positive.\<close>

function fill_buckets ::
  "(int \<Rightarrow> string) \<Rightarrow> (int \<times> nat) list \<Rightarrow> nat \<Rightarrow> int \<Rightarrow> int \<Rightarrow> int \<Rightarrow> TimelineBucket list" where
  "fill_buckets formatLabel buckets mx bucketMs bucket endBucket =
     (if 0 < bucketMs \<and> bucket \<le> endBucket
      then \<lparr>time = bucket, label = formatLabel bucket,
            bucket_count = map_get buckets bucket 0, maxCount = mx\<rparr>
           # fill_buckets formatLabel buckets mx bucketMs (bucket + bucketMs) endBucket
      else [])"
  by pat_completeness auto
termination
  by (relation "measure (\<lambda>(f, b, m, bucketMs, bucket, endBucket). nat (endBucket - bucket + 1))") auto

fun filter_index :: "(nat \<Rightarrow> bool) \<Rightarrow> nat \<Rightarrow> 'a list \<Rightarrow> 'a list" where
  "filter_index p i [] = []"
| "filter_index p i (x # xs) =
     (if p i then x # filter_index p (Suc i) xs else filter_index p (Suc i) xs)"

text \<open>The limit to 30 buckets: \<^verbatim>\<open>result.filter((_, i) => i % step === 0)\<close>.\<close>

definition limit_buckets :: "'a list \<Rightarrow> 'a list" where
  "limit_buckets result =
     (if 30 < length result
      then (let step = (length result + 29) div 30
            in filter_index (\<lambda>i. i mod step = 0) 0 result)
      else result)"

text \<open>The sorted valid timestamps; the array \<^verbatim>\<open>result\<close> that the gap-filling loop builds
  from them when there is at least one; and \<^verbatim>\<open>timelineData\<close>, which returns early on an
  empty input and otherwise limits that array.\<close>

definition sorted_times :: "(jsval \<Rightarrow> date) \<Rightarrow> jsobject list \<Rightarrow> int list" where
  "sorted_times date_of records = js_sort (\<lambda>a b. a - b) (valid_times date_of records)"

definition gap_filled :: "(label_style \<Rightarrow> int \<Rightarrow> string) \<Rightarrow> int list \<Rightarrow> TimelineBucket list" where
  "gap_filled fmt timestamps =
     (let minTime = hd timestamps;
          maxTime = last timestamps;
          time_span = maxTime - minTime;
          bucketMs = fst (bucket_size time_span);
          formatLabel = fmt (snd (bucket_size time_span));
          buckets = count_buckets bucketMs timestamps [];
          mx = Max (set (map snd buckets));
          startBucket = minTime div bucketMs * bucketMs;
          endBucket = maxTime div bucketMs * bucketMs
      in fill_buckets formatLabel buckets mx bucketMs startBucket endBucket)"

definition timelineData ::
  "(label_style \<Rightarrow> int \<Rightarrow> string) \<Rightarrow> (jsval \<Rightarrow> date) \<Rightarrow> jsobject list \<Rightarrow> TimelineBucket list" where
  "timelineData fmt date_of records =
     (if length records = 0 then []
      else
        (let timestamps = sorted_times date_of records
         in if length timestamps = 0 then []
            else limit_buckets (gap_filled fmt timestamps)))"

text \<open>The gap-filled series of a record set, before it is limited: empty when there is
  no record or no valid timestamp.\<close>

definition timeline_series ::
  "(label_style \<Rightarrow> int \<Rightarrow> string) \<Rightarrow> (jsval \<Rightarrow> date) \<Rightarrow> jsobject list \<Rightarrow> TimelineBucket list" where
  "timeline_series fmt date_of records =
     (if length records = 0 then []
      else if length (sorted_times date_of records) = 0 then []
      else gap_filled fmt (sorted_times date_of records))"

subsection \<open>Duration evolution\<close>

text \<open>
  The value of a number, for sorting and averaging.  A bucket of the duration chart
  holds at least one duration: it is created by the first \<^verbatim>\<open>push\<close>.  \<open>p95Duration\<close> is
  \<open>None\<close> for \<^verbatim>\<open>undefined\<close>.  \<^verbatim>\<open>Math.floor(n * 0.95)\<close> is \<open>n * 19 div 20\<close>.
\<close>

definition num_value :: "int \<Rightarrow> int \<Rightarrow> rat" where
  "num_value m e = (if 0 \<le> e then of_int m * 10 ^ nat e else of_int m / 10 ^ nat (- e))"

record DurationPoint =
  point_time :: int
  point_label :: string
  avgDuration :: rat
  maxDuration :: rat
  minDuration :: rat
  p95Duration :: "rat option"

definition data_point :: "(jsval \<Rightarrow> date) \<Rightarrow> jsobject \<Rightarrow> (int \<times> rat) option" where
  "data_point date_of entry =
     (case date_of (obj_get entry ''@timestamp'') of
        None \<Rightarrow> None
      | Some t \<Rightarrow>
          (case obj_get entry ''http.duration_ms'' of
             JNum m e \<Rightarrow> Some (t, num_value m e)
           | _ \<Rightarrow> None))"

fun group_durations :: "int \<Rightarrow> (int \<times> rat) list \<Rightarrow> (int \<times> rat list) list \<Rightarrow> (int \<times> rat list) list" where
  "group_durations bucketMs [] buckets = buckets"
| "group_durations bucketMs ((t, d) # rest) buckets =
     (let bucketKey = t div bucketMs * bucketMs
      in group_durations bucketMs rest (map_set bucketKey (map_get buckets bucketKey [] @ [d]) buckets))"

text \<open>\<^verbatim>\<open>xs[i]\<close> on an array of numbers, and \<^verbatim>\<open>a || b\<close> on what it gives: \<open>b\<close> when \<open>a\<close>
  is \<^verbatim>\<open>undefined\<close> or zero.\<close>

definition nth_opt :: "'a list \<Rightarrow> nat \<Rightarrow> 'a option" where
  "nth_opt xs i = (if i < length xs then Some (xs ! i) else None)"

definition num_or :: "rat option \<Rightarrow> rat option \<Rightarrow> rat option" where
  "num_or a b = (case a of None \<Rightarrow> b | Some x \<Rightarrow> if x \<noteq> 0 then Some x else b)"

definition duration_stats :: "(int \<Rightarrow> string) \<Rightarrow> int \<times> rat list \<Rightarrow> DurationPoint" where
  "duration_stats formatLabel bucket =
     (let bucketTime = fst bucket;
          durations = js_sort (\<lambda>a b. a - b) (snd bucket);
          p95Index = length durations * 19 div 20
      in \<lparr>point_time = bucketTime,
          point_label = formatLabel bucketTime,
          avgDuration = sum_list durations / of_nat (length durations),
          maxDuration = Max (set durations),
          minDuration = Min (set durations),
          p95Duration = num_or (nth_opt durations p95Index)
                               (nth_opt durations (length durations - 1))\<rparr>)"

definition durationEvolution ::
  "(label_style \<Rightarrow> int \<Rightarrow> string) \<Rightarrow> (jsval \<Rightarrow> date) \<Rightarrow> jsobject list \<Rightarrow> DurationPoint list" where
  "durationEvolution fmt date_of records =
     (if length records = 0 then []
      else
        (let dataPoints = js_sort (\<lambda>a b. fst a - fst b) (List.map_filter (data_point date_of) records)
         in if length dataPoints < 2 then []
            else
              (let minTime = fst (hd dataPoints);
                   maxTime = fst (last dataPoints);
                   time_span = maxTime - minTime;
                   bucketMs = (if time_span < 60 * 60 * 1000 then 5 * 60 * 1000 else 15 * 60 * 1000);
                   buckets = group_durations bucketMs dataPoints []
               in map (duration_stats (fmt HourMinute))
                      (js_sort (\<lambda>a b. fst a - fst b) buckets))))"

section \<open>The field set of a record\<close>

text \<open>
  The specification's wording of what normalization must retain, independent of the
  code: the fields of the original record, each under its dot-path (the names on the way
  to it joined by dots) with its value.  A nested plain object is not a field itself but
  contributes the fields inside it; an array is one field holding the sequence; a nested
  object with nothing inside is a field of the record all the same.  The prefix is
  \<open>None\<close> at the top of the record.
\<close>

fun spec_fields :: "string option \<Rightarrow> jsobject \<Rightarrow> (string \<times> jsval) list" where
  "spec_fields pre [] = []"
| "spec_fields pre ((k, v) # rest) =
     (let path = (case pre of None \<Rightarrow> k | Some p \<Rightarrow> p @ ''.'' @ k)
      in (case v of
            JObj (e # sub) \<Rightarrow> spec_fields (Some path) (e # sub)
          | _ \<Rightarrow> [(path, v)])
         @ spec_fields pre rest)"



section \<open>Example data\<close>

text \<open>The inputs at which the theorems below are instantiated.  \<open>example_dates\<close> is
  \<^verbatim>\<open>new Date(v).getTime()\<close> on the values the examples hold: midnight of 1 January 2024
  (UTC) for the one valid timestamp, an invalid date for the others; \<open>two_dates\<close> also
  knows the instant 45 minutes later.\<close>

definition example_now :: "nat \<Rightarrow> string" where
  "example_now index = ''2024-06-01T12:00:00.000Z''"

definition example_dates :: "jsval \<Rightarrow> date" where
  "example_dates v = (if v = JStr ''2024-01-01T00:00:00Z'' then Some 1704067200000 else None)"

definition two_dates :: "jsval \<Rightarrow> date" where
  "two_dates v =
     (if v = JStr ''2024-01-01T00:00:00Z'' then Some 1704067200000
      else if v = JStr ''2024-01-01T00:45:00Z'' then Some 1704069900000
      else None)"

definition no_regexp :: "string \<Rightarrow> string \<Rightarrow> (string \<Rightarrow> bool) option" where
  "no_regexp pattern flags = None"

definition undated_record :: jsobject where
  "undated_record =
     [(''_id'', JStr ''entry-1''), (''@timestamp'', JStr ''not a date''), (''level'', JStr ''ERROR'')]"

definition two_records :: "jsobject list" where
  "two_records =
     [[(''_id'', JStr ''entry-0''), (''@timestamp'', JStr ''2024-01-01T00:00:00Z''),
       (''level'', JStr ''INFO'')],
      undated_record]"

definition loaded_state :: parser_state where
  "loaded_state = \<lparr>logs = two_records, isLoading = False, error = None\<rparr>"

definition no_filters :: search_state where
  "no_filters = \<lparr>searchQuery = [], isRegex = False, quickFilters = [],
                 timeRange = \<lparr>range_start = None, range_end = None\<rparr>, caseSensitive = False\<rparr>"

definition from_2024 :: search_state where
  "from_2024 = no_filters\<lparr>timeRange := \<lparr>range_start = Some (Some 1704067200000), range_end = None\<rparr>\<rparr>"

text \<open>The two-line NDJSON text of the scenario, and a bucket of twenty durations of
  0 ms and one of 5 ms.\<close>

definition ndjson_scenario :: string where
  \<open>ndjson_scenario =
     ''{"@timestamp":"2024-01-01T00:00:00Z","level":"info","msg":"ok"}'' @ [newline] @ ''not json''\<close>

definition carriage_return_only :: string where
  "carriage_return_only = [CHR ''a'', bsl, CHR ''r'', CHR ''b'']"

definition zero_heavy_bucket :: "rat list" where
  "zero_heavy_bucket = replicate 20 0 @ [5]"

definition timed_record :: "int \<Rightarrow> jsobject" where
  "timed_record ms =
     [(''_id'', JStr ''entry-0''), (''@timestamp'', JStr ''2024-01-01T00:00:00Z''),
      (''http.duration_ms'', JNum ms 0)]"

text \<open>A JSON array cut off after its first element; a record with a nested object and
  an array; the same with an empty object among its fields; a record one of whose two
  fields is an empty object; a record in which a dotted name and a nested field have the
  same dot-path.\<close>

definition truncated_array :: string where
  \<open>truncated_array = ''[{"level":"info"},''\<close>

definition nested_record :: jsobject where
  "nested_record =
     [(''http'', JObj [(''method'', JStr ''GET''), (''status_code'', JNum 2 2)]),
      (''tags'', JArr [JStr ''a'', JStr ''b'']),
      (''msg'', JStr ''ok'')]"



definition colliding_record :: jsobject where
  "colliding_record = [(''a.b'', JNum 1 0), (''a'', JObj [(''b'', JNum 2 0)])]"

section \<open>Filtering\<close>

lemma length_time_range_stage: "length (time_range_stage date_of st xs) \<le> length xs"
  by (simp add: time_range_stage_def)

lemma length_quick_filter_stage: "length (quick_filter_stage st xs) \<le> length xs"
  by (simp add: quick_filter_stage_def)

lemma length_query_stage: "length (query_stage regexp st xs) \<le> length xs"
  by (simp add: query_stage_def Let_def split: option.splits)

lemma trim_Nil: "trim [] = []"
  by (simp add: trim_def)

text \<open>
  C2.  For every record list and every search state, \<open>filterLogs\<close> returns at most as
  many records as it is given; and when the query is empty, there is no quick filter and
  both bounds of the time range are \<^verbatim>\<open>null\<close>, it returns the list itself, same elements
  in the same order.
\<close>

theorem filterLogs_narrows_and_is_identity_when_inactive:
  "length (filterLogs date_of regexp st records) \<le> length records \<and>
   (searchQuery st = [] \<and> quickFilters st = [] \<and> range_start (timeRange st) = None
      \<and> range_end (timeRange st) = None
    \<longrightarrow> filterLogs date_of regexp st records = records)"
proof
  have "length (filterLogs date_of regexp st records)
          \<le> length (quick_filter_stage st (time_range_stage date_of st records))"
    unfolding filterLogs_def by (rule length_query_stage)
  also have "\<dots> \<le> length (time_range_stage date_of st records)"
    by (rule length_quick_filter_stage)
  also have "\<dots> \<le> length records"
    by (rule length_time_range_stage)
  finally show "length (filterLogs date_of regexp st records) \<le> length records" .
next
  show "searchQuery st = [] \<and> quickFilters st = [] \<and> range_start (timeRange st) = None
      \<and> range_end (timeRange st) = None
    \<longrightarrow> filterLogs date_of regexp st records = records"
    by (simp add: filterLogs_def query_stage_def quick_filter_stage_def time_range_stage_def
        trim_Nil)
qed

theorem filterLogs_identity_witness:
  "searchQuery no_filters = [] \<and> quickFilters no_filters = []
   \<and> range_start (timeRange no_filters) = None \<and> range_end (timeRange no_filters) = None
   \<and> filterLogs example_dates no_regexp no_filters two_records = two_records
   \<and> length (filterLogs example_dates no_regexp no_filters two_records) \<le> length two_records"
  using filterLogs_narrows_and_is_identity_when_inactive
    [of example_dates no_regexp no_filters two_records]
  by (simp add: no_filters_def)

text \<open>
  C9.  When the time range has a start or an end bound, a record whose \<^verbatim>\<open>@timestamp\<close>
  does not give a valid date passes the time-range test, whatever the bounds are: every
  occurrence of it in the input is still there after the time-range stage.
\<close>

theorem invalid_timestamp_passes_time_range:
  assumes "range_start (timeRange st) \<noteq> None \<or> range_end (timeRange st) \<noteq> None"
    and "date_of (obj_get entry ''@timestamp'') = None"
  shows "in_time_range date_of (timeRange st) entry \<and>
         filter (\<lambda>e. e = entry) (time_range_stage date_of st records)
           = filter (\<lambda>e. e = entry) records"
proof -
  have keep: "in_time_range date_of (timeRange st) entry"
    using assms(2) by (simp add: in_time_range_def date_less_def split: option.splits)
  have "filter (\<lambda>e. e = entry) (filter (in_time_range date_of (timeRange st)) records)
          = filter (\<lambda>e. e = entry) records"
    using keep by (induction records) auto
  with keep assms(1) show ?thesis
    by (simp add: time_range_stage_def)
qed

theorem invalid_timestamp_witness:
  "range_start (timeRange from_2024) \<noteq> None
   \<and> example_dates (obj_get undated_record ''@timestamp'') = None
   \<and> in_time_range example_dates (timeRange from_2024) undated_record
   \<and> filter (\<lambda>e. e = undated_record) (time_range_stage example_dates from_2024 two_records)
       = [undated_record]"
proof -
  have a: "range_start (timeRange from_2024) \<noteq> None \<or> range_end (timeRange from_2024) \<noteq> None"
    by (simp add: from_2024_def)
  have b: "example_dates (obj_get undated_record ''@timestamp'') = None"
    by (simp add: example_dates_def undated_record_def obj_get_def)
  have c: "filter (\<lambda>e. e = undated_record) two_records = [undated_record]"
    by (simp add: two_records_def undated_record_def)
  show ?thesis
    using invalid_timestamp_passes_time_range
      [where st = from_2024 and date_of = example_dates and entry = undated_record
         and records = two_records] a b c
    by (simp add: from_2024_def)
qed

text \<open>
  C10 (as amended).  A quick filter on a field that the record does not carry, the
  field's name not being a member of \<^verbatim>\<open>Object.prototype\<close>, or that the record carries as
  \<^verbatim>\<open>null\<close> or \<^verbatim>\<open>undefined\<close>, compares against the empty string: the filter
  \<^verbatim>\<open>equals ""\<close> matches the record and the filter \<^verbatim>\<open>not_equals ""\<close> rejects it.
\<close>

theorem missing_field_coerced_to_empty_string:
  assumes "(map_of entry f = None \<and> f \<notin> set prototype_names)
           \<or> map_of entry f = Some JNull \<or> map_of entry f = Some JUndefined"
  shows "field_string entry f = [] \<and>
         filter_matches entry \<lparr>field = f, fvalue = [], operator = Equals\<rparr> \<and>
         \<not> filter_matches entry \<lparr>field = f, fvalue = [], operator = Not_equals\<rparr>"
proof -
  have "f \<notin> set prototype_names \<Longrightarrow> prototype_get f = JUndefined"
    by (simp add: prototype_get_def prototype_names_def)
  then have "obj_get entry f = JNull \<or> obj_get entry f = JUndefined"
    using assms by (auto simp: obj_get_def)
  then have "field_string entry f = []"
    by (auto simp: field_string_def)
  then show ?thesis
    by (simp add: filter_matches_def)
qed

theorem missing_field_witness:
  "map_of undated_record ''host'' = None
   \<and> field_string undated_record ''host'' = []
   \<and> filter_matches undated_record \<lparr>field = ''host'', fvalue = [], operator = Equals\<rparr>
   \<and> \<not> filter_matches undated_record \<lparr>field = ''host'', fvalue = [], operator = Not_equals\<rparr>"
proof -
  have a: "map_of undated_record ''host'' = None"
    by (simp add: undated_record_def)
  have b: "''host'' \<notin> set prototype_names"
    by (simp add: prototype_names_def)
  show ?thesis
    using missing_field_coerced_to_empty_string
      [where entry = undated_record and f = "''host''"] a b
    by simp
qed

text \<open>C10 as it is written fails: the record does not carry a field \<^verbatim>\<open>constructor\<close>, the
  read finds the inherited function, and the filter \<^verbatim>\<open>equals ""\<close> rejects the record
  while \<^verbatim>\<open>not_equals ""\<close> matches it.\<close>

theorem inherited_member_is_not_empty_string:
  "map_of undated_record ''constructor'' = None
   \<and> field_string undated_record ''constructor'' = ''function Object() { [native code] }''
   \<and> filter_matches undated_record
        \<lparr>field = ''constructor'', fvalue = [], operator = Equals\<rparr> = False
   \<and> filter_matches undated_record
        \<lparr>field = ''constructor'', fvalue = [], operator = Not_equals\<rparr> = True"
  by code_simp

section \<open>The timeline histogram\<close>

lemma length_filter_index:
  "length (filter_index p i xs) = length (filter p [i..<i + length xs])"
proof (induction xs arbitrary: i)
  case Nil
  show ?case by simp
next
  case (Cons x xs)
  have "[i..<i + length (x # xs)] = i # [Suc i..<i + length (x # xs)]"
    by (rule upt_conv_Cons) simp
  then have "[i..<i + length (x # xs)] = i # [Suc i..<Suc i + length xs]"
    by simp
  then show ?case
    using Cons.IH [of "Suc i"] by simp
qed

lemma ceil_div_step:
  assumes "0 < s"
  shows "(Suc n + s - 1) div s = (n + s - 1) div s + (if n mod s = 0 then 1 else 0)"
proof -
  obtain q r where n: "n = q * s + r" and r: "r < s"
    using assms by (metis div_mult_mod_eq mod_less_divisor)
  show ?thesis
  proof (cases "r = 0")
    case True
    have a: "(Suc n + s - 1) div s = q + 1"
      using assms n True by simp
    have "(n + s - 1) div s = (q * s + (s - 1)) div s"
      using assms n True by simp
    also have "\<dots> = q + (s - 1) div s"
      using assms by (simp only: div_mult_self3)
    also have "\<dots> = q"
      using assms by simp
    finally show ?thesis using a n True by simp
  next
    case False
    have "Suc n + s - 1 = (q + 1) * s + r" using n by simp
    then have a: "(Suc n + s - 1) div s = q + 1"
      using r by simp
    have "n + s - 1 = (q + 1) * s + (r - 1)" using n False by simp
    then have "(n + s - 1) div s = ((q + 1) * s + (r - 1)) div s" by simp
    also have "\<dots> = (q + 1) + (r - 1) div s"
      using assms by (simp only: div_mult_self3)
    also have "\<dots> = q + 1"
      using r by simp
    finally have b: "(n + s - 1) div s = q + 1" .
    have "n mod s = r" using n r by simp
    with a b False show ?thesis by simp
  qed
qed

lemma count_multiples:
  assumes "0 < s"
  shows "length (filter (\<lambda>i. i mod s = 0) [0..<n]) = (n + s - 1) div s"
proof (induction n)
  case 0
  show ?case using assms by simp
next
  case (Suc n)
  show ?case
    using Suc.IH ceil_div_step [OF assms, of n] by simp
qed

lemma length_limit_buckets: "length (limit_buckets xs) \<le> 30"
proof (cases "30 < length xs")
  case False
  then show ?thesis by (simp add: limit_buckets_def)
next
  case True
  define s where "s = (length xs + 29) div 30"
  have s_pos: "0 < s" using True by (simp add: s_def)
  have "length xs \<le> s * 30" unfolding s_def by presburger
  then have "length xs + s - 1 < 31 * s" using s_pos by simp
  then have "(length xs + s - 1) div s < 31"
    using s_pos by (simp add: div_less_iff_less_mult)
  moreover have "length (limit_buckets xs) = (length xs + s - 1) div s"
    using True count_multiples [OF s_pos, of "length xs"]
    by (simp add: limit_buckets_def s_def [symmetric] length_filter_index)
  ultimately show ?thesis by simp
qed

lemma filter_index_nth:
  "filter_index p i xs = map (\<lambda>k. xs ! (k - i)) (filter p [i..<i + length xs])"
proof (induction xs arbitrary: i)
  case Nil
  show ?case by simp
next
  case (Cons x xs)
  define rest where "rest = [Suc i..<Suc i + length xs]"
  have "[i..<i + length (x # xs)] = i # [Suc i..<i + length (x # xs)]"
    by (rule upt_conv_Cons) simp
  moreover have "i + length (x # xs) = Suc i + length xs"
    by simp
  ultimately have upt: "[i..<i + length (x # xs)] = i # rest"
    by (simp only: rest_def)
  have IH: "filter_index p (Suc i) xs = map (\<lambda>k. xs ! (k - Suc i)) (filter p rest)"
    unfolding rest_def by (rule Cons.IH)
  have tl: "map (\<lambda>k. (x # xs) ! (k - i)) (filter p rest)
              = map (\<lambda>k. xs ! (k - Suc i)) (filter p rest)"
  proof (rule map_cong [OF refl])
    fix k
    assume "k \<in> set (filter p rest)"
    then have "k \<in> set rest" by simp
    then have "Suc i \<le> k" unfolding rest_def by (simp only: set_upt atLeastLessThan_iff)
    then have "k - i = Suc (k - Suc i)" by simp
    then show "(x # xs) ! (k - i) = xs ! (k - Suc i)" by simp
  qed
  show ?case
    by (simp only: upt) (simp add: IH tl)
qed

lemma ceil_div_multiple:
  assumes "0 < s" and "n mod s = 0"
  shows "(n + s - 1) div s * s = (n::nat)"
proof -
  obtain q where n: "n = q * s"
    using assms(2) by (metis div_mult_mod_eq add.right_neutral)
  have "(q * s + (s - 1)) div s = q + (s - 1) div s"
    using assms(1) by (simp only: div_mult_self3)
  then have "(n + s - 1) div s = q"
    using assms(1) n by simp
  then show ?thesis using n by simp
qed

lemma multiples_below:
  assumes "0 < s"
  shows "filter (\<lambda>i. i mod s = 0) [0..<n] = map (\<lambda>j. j * s) [0..<(n + s - 1) div s]"
proof (induction n)
  case 0
  show ?case using assms by simp
next
  case (Suc n)
  show ?case
  proof (cases "n mod s = 0")
    case True
    have "(Suc n + s - 1) div s = Suc ((n + s - 1) div s)"
      using ceil_div_step [OF assms, of n] True by simp
    then show ?thesis
      using Suc.IH True ceil_div_multiple [OF assms True] by simp
  next
    case False
    have "(Suc n + s - 1) div s = (n + s - 1) div s"
      using ceil_div_step [OF assms, of n] False by simp
    then show ?thesis
      using Suc.IH False by simp
  qed
qed

text \<open>The points kept by the limit are those at the indices \<open>0\<close>, \<open>N\<close>, \<open>2N\<close>, ... of the
  series, all of them within it.\<close>

lemma kept_index_in_range:
  assumes "0 < s" and "j < (n + s - 1) div s"
  shows "j * s < (n::nat)"
proof -
  have "j \<in> set [0..<(n + s - 1) div s]"
    using assms(2) by simp
  then have "j * s \<in> set (map (\<lambda>j. j * s) [0..<(n + s - 1) div s])"
    by (simp only: set_map) (rule imageI)
  then have "j * s \<in> set (filter (\<lambda>i. i mod s = 0) [0..<n])"
    by (simp only: multiples_below [OF assms(1)])
  then show ?thesis by simp
qed

lemma limit_buckets_every_nth:
  "limit_buckets series
     = (if 30 < length series
        then map (\<lambda>j. series ! (j * ((length series + 29) div 30)))
               [0..<(length series + (length series + 29) div 30 - 1)
                      div ((length series + 29) div 30)]
        else series)"
proof (cases "30 < length series")
  case False
  then show ?thesis by (simp add: limit_buckets_def)
next
  case True
  define s where "s = (length series + 29) div 30"
  have s_pos: "0 < s" using True by (simp add: s_def)
  have "limit_buckets series = filter_index (\<lambda>i. i mod s = 0) 0 series"
    using True by (simp add: limit_buckets_def s_def)
  also have "\<dots> = map (\<lambda>k. series ! k) (filter (\<lambda>i. i mod s = 0) [0..<length series])"
    by (simp add: filter_index_nth)
  also have "\<dots> = map (\<lambda>j. series ! (j * s)) [0..<(length series + s - 1) div s]"
    by (simp add: multiples_below [OF s_pos] comp_def)
  finally show ?thesis
    using True by (simp add: s_def)
qed

lemma timelineData_is_limited_series:
  "timelineData fmt date_of records = limit_buckets (timeline_series fmt date_of records)"
  by (simp add: timelineData_def timeline_series_def Let_def limit_buckets_def)

text \<open>
  C3.  For every record set the timeline histogram has at most 30 buckets.  It is the
  gap-filled series of the record set passed through the limit; the limit returns a
  series of at most 30 points as it is, and of a longer series it keeps every \<open>N\<close>-th
  point, the points at the indices \<open>0\<close>, \<open>N\<close>, \<open>2N\<close>, ..., with \<open>N\<close> the series length
  divided by 30 and rounded up; that keeps the series length divided by \<open>N\<close> and rounded
  up, which never exceeds 30 points, whatever the length of the series.
\<close>

theorem timeline_never_exceeds_30_buckets:
  "length (timelineData fmt date_of records) \<le> 30
   \<and> length (limit_buckets series) \<le> 30
   \<and> length (limit_buckets series)
       = (if 30 < length series
          then (length series + (length series + 29) div 30 - 1) div ((length series + 29) div 30)
          else length series)
   \<and> timelineData fmt date_of records = limit_buckets (timeline_series fmt date_of records)
   \<and> limit_buckets series
       = (if 30 < length series
          then map (\<lambda>j. series ! (j * ((length series + 29) div 30)))
                 [0..<(length series + (length series + 29) div 30 - 1)
                        div ((length series + 29) div 30)]
          else series)"
proof -
  have kept: "length (limit_buckets series)
       = (if 30 < length series
          then (length series + (length series + 29) div 30 - 1) div ((length series + 29) div 30)
          else length series)"
    by (subst limit_buckets_every_nth) simp
  have whole: "length (timelineData fmt date_of records) \<le> 30"
    by (simp only: timelineData_is_limited_series length_limit_buckets)
  show ?thesis
    by (intro conjI)
      (rule whole, rule length_limit_buckets, rule kept, rule timelineData_is_limited_series,
        rule limit_buckets_every_nth)
qed

text \<open>The series is not always empty, so the histogram is not: one record with a valid
  timestamp gives the one bucket of its minute.\<close>

lemma timeline_of_one_record:
  "timelineData fmt example_dates [timed_record 5]
     = [\<lparr>time = 1704067200000, label = fmt HourMinute 1704067200000,
         bucket_count = 1, maxCount = 1\<rparr>]"
  by code_simp

section \<open>Loading\<close>

text \<open>
  C1 (as amended).  When the trimmed content starts with \<^verbatim>\<open>[\<close> and is not valid JSON,
  or parses to something that is not an array, \<open>parseLogFile\<close> stores a load error
  (the syntax error, or \<^verbatim>\<open>Expected JSON array\<close>), resets the loading flag and leaves the
  record sequence as it was before the call: nothing of the failing content is stored,
  and the records loaded before are still there.
\<close>

theorem failed_array_load_sets_error_and_keeps_logs:
  assumes "startsWith (trim content) ''[''"
    and "case parse (trim content) of None \<Rightarrow> True | Some v \<Rightarrow> \<not> is_array v"
  shows "error (parseLogFile parse now content filename st)
           = Some (if parse (trim content) = None then SyntaxError else ExpectedJsonArray)
         \<and> logs (parseLogFile parse now content filename st) = logs st
         \<and> isLoading (parseLogFile parse now content filename st) = False"
proof (cases "parse (trim content)")
  case None
  then show ?thesis
    using assms(1) by (simp add: parseLogFile_def parseJsonArray_def)
next
  case (Some v)
  with assms(2) have "\<not> is_array v" by simp
  then have "parseJsonArray parse now (trim content) = Inl ExpectedJsonArray"
    using Some by (cases v) (simp_all add: parseJsonArray_def)
  then show ?thesis
    using assms(1) Some by (simp add: parseLogFile_def)
qed

theorem failed_array_load_witness:
  "startsWith (trim truncated_array) ''[''
   \<and> JSON_parse (trim truncated_array) = None
   \<and> error (parseLogFile JSON_parse example_now truncated_array ''app.json'' loaded_state)
       = Some SyntaxError
   \<and> logs (parseLogFile JSON_parse example_now truncated_array ''app.json'' loaded_state)
       = two_records"
proof -
  have a: "startsWith (trim truncated_array) ''[''" by code_simp
  have b: "JSON_parse (trim truncated_array) = None" by code_simp
  show ?thesis
    using failed_array_load_sets_error_and_keeps_logs
      [where content = truncated_array and parse = JSON_parse and now = example_now
         and filename = "''app.json''" and st = loaded_state] a b
    by (simp add: loaded_state_def)
qed

text \<open>C1 as it is written fails: after a failing load of \<^verbatim>\<open>[oops\<close> the error is set
  and the two records loaded before are still the record sequence.\<close>

theorem failed_array_load_does_not_clear_logs:
  "startsWith (trim ''[oops'') ''['' \<and> JSON_parse (trim ''[oops'') = None
   \<and> error (parseLogFile JSON_parse example_now ''[oops'' ''app.json'' loaded_state) \<noteq> None
   \<and> logs (parseLogFile JSON_parse example_now ''[oops'' ''app.json'' loaded_state) \<noteq> []"
  by code_simp

text \<open>
  C8.  The two-line NDJSON text of the scenario gives two records, and the line that is
  not JSON becomes a plain-text record whose message and raw attribute are the line.
  The first record's \<open>level\<close> is \<^verbatim>\<open>info\<close> as written in the source line, not \<^verbatim>\<open>INFO\<close>:
  the upper-cased level that \<open>detectLevel\<close> finds is replaced when the flattened fields
  are spread over it.
\<close>

theorem ndjson_scenario_records:
  "parseNdjson JSON_parse now ndjson_scenario
     = [[(''_id'', JStr ''entry-0''), (''_index'', JUndefined),
         (''@timestamp'', JStr ''2024-01-01T00:00:00Z''),
         (''level'', JStr ''info''), (''message'', JStr ''ok''), (''msg'', JStr ''ok'')],
        [(''_id'', JStr ''line-1''), (''@timestamp'', JStr (now 1)),
         (''level'', JUndefined), (''message'', JStr ''not json''),
         (''_raw'', JStr ''not json'')]]"
  by code_simp

text \<open>In general: each line that is not blank gives one record, a line that does not
  parse (or whose value cannot be normalized) gives the plain-text record of that line,
  and every other line gives its normalized entry.\<close>

lemma map_index_nth:
  "i < length xs \<Longrightarrow> map_index f k xs ! i = f (xs ! i) (k + i)"
proof (induction xs arbitrary: i k)
  case Nil
  then show ?case by simp
next
  case (Cons x xs)
  then show ?case by (cases i) simp_all
qed

lemma parseNdjson_line:
  assumes "i < length (filter (\<lambda>line. trim line \<noteq> []) (split content newline))"
  shows "parseNdjson parse now content ! i
           = (let line = filter (\<lambda>line. trim line \<noteq> []) (split content newline) ! i
              in case parse line of
                   None \<Rightarrow> createTextEntry now line i
                 | Some parsed \<Rightarrow>
                     (case normalizeEntry now parsed i of
                        Inl e \<Rightarrow> createTextEntry now line i
                      | Inr entry \<Rightarrow> entry))"
  using assms by (simp add: parseNdjson_def map_index_nth Let_def)

lemma text_entry_message:
  "obj_get (createTextEntry now line i) ''message'' = JStr line
   \<and> obj_get (createTextEntry now line i) ''_raw'' = JStr line"
  by (simp add: createTextEntry_def obj_get_def Let_def)

lemma length_map_index: "length (map_index f i xs) = length xs"
  by (induction xs arbitrary: i) simp_all

lemma parseNdjson_one_record_per_line:
  "length (parseNdjson parse now content)
     = length (filter (\<lambda>line. trim line \<noteq> []) (split content newline))"
  by (simp add: parseNdjson_def length_map_index)

section \<open>Unescaping\<close>

text \<open>
  C6.  On the four characters \<^verbatim>\<open>a\rb\<close> (a backslash followed by \<^verbatim>\<open>r\<close> in the middle),
  which hold none of the three sequences the loop tests for, \<open>unescapeString\<close> returns
  the string unchanged, although replacing the escapes would turn the two middle
  characters into a carriage return.
\<close>

theorem carriage_return_escape_left_unreplaced:
  "unescapeString JSON_parse carriage_return_only = carriage_return_only
   \<and> has_escapes carriage_return_only = False
   \<and> replace_escapes carriage_return_only = [CHR ''a'', CHR 0x0D, CHR ''b'']"
  by code_simp

section \<open>Statistics\<close>

lemma p95_index_in_range: "0 < n \<Longrightarrow> n * 19 div 20 < (n::nat)"
  by simp

text \<open>
  C4.  In a bucket of twenty durations of 0 ms and one of 5 ms the sorted value at index
  \<open>floor(21 * 0.95) = 19\<close> is 0, and the reported 95th percentile is 5: a value of 0 at
  the index is taken for a missing one and replaced by the last element.  The bucket
  \<open>[10, 20, 30, 40, 100]\<close> of the scenario reports 100.
\<close>

theorem p95_of_zero_replaced_by_last:
  "nth_opt (js_sort (\<lambda>a b. a - b) zero_heavy_bucket) (length zero_heavy_bucket * 19 div 20) = Some 0
   \<and> p95Duration (duration_stats formatLabel (bucketTime, zero_heavy_bucket)) = Some 5
   \<and> map p95Duration (durationEvolution fmt example_dates (map timed_record (replicate 20 0 @ [5])))
       = [Some 5]
   \<and> p95Duration (duration_stats formatLabel (bucketTime, [10, 20, 30, 40, 100])) = Some 100"
  by code_simp

text \<open>
  C5.  With one record of level \<^verbatim>\<open>NOTICE\<close>, which is not in the priority list, and one
  of level \<^verbatim>\<open>ERROR\<close>, the distribution lists \<^verbatim>\<open>NOTICE\<close> before \<^verbatim>\<open>ERROR\<close>: a label that
  is not in the list has index \<open>-1\<close> and sorts before every label of the list.
\<close>

theorem unlisted_level_sorts_before_error:
  "levelDistribution [[(''level'', JStr ''ERROR'')], [(''level'', JStr ''NOTICE'')]]
     = Inr [\<lparr>level = ''NOTICE'', count = 1, percentage = 50, color = ''#888888''\<rparr>,
            \<lparr>level = ''ERROR'', count = 1, percentage = 50, color = ''#C62828''\<rparr>]
   \<and> indexOf priority ''NOTICE'' = - 1 \<and> indexOf priority ''ERROR'' = 0"
  by code_simp

section \<open>Flattening\<close>


























text \<open>Two fields with the same dot-path: the later one replaces the earlier one.  A
  nested object under the empty name: its fields lose the leading dot of their path.
  A field named \<^verbatim>\<open>__proto__\<close> leaves no attribute.  An array keeps the objects inside it
  as they are.\<close>

lemma colliding_paths_keep_last:
  "spec_fields None colliding_record = [(''a.b'', JNum 1 0), (''a.b'', JNum 2 0)]
   \<and> flattenObject (JObj colliding_record) [] = Inr [(''a.b'', JNum 2 0)]"
  by code_simp

lemma empty_name_gives_no_prefix:
  "spec_fields None [([], JObj [(''a'', JNum 1 0)])] = [(''.a'', JNum 1 0)]
   \<and> flattenObject (JObj [([], JObj [(''a'', JNum 1 0)])]) [] = Inr [(''a'', JNum 1 0)]"
  by code_simp

lemma proto_field_is_dropped:
  "flattenObject (JObj [(''__proto__'', JNum 1 0), (''msg'', JStr ''ok'')]) []
     = Inr [(''msg'', JStr ''ok'')]"
  by code_simp

lemma array_is_one_attribute:
  "flattenObject (JObj [(''tags'', JArr [JObj [(''k'', JNum 1 0)], JStr ''b''])]) []
     = Inr [(''tags'', JArr [JObj [(''k'', JNum 1 0)], JStr ''b''])]"
  by code_simp

end
